theory Spec2Isabelle
  imports Complex_Main
begin

section \<open>Values of the host language\<close>

text \<open>
  The card (\<^verbatim>\<open>einsatz-monitor-card.js\<close>) reads a state object that Home Assistant
  delivers as parsed JSON, so the values it meets are \<^verbatim>\<open>undefined\<close> (an absent
  property), \<^verbatim>\<open>null\<close>, booleans, numbers, strings, arrays and plain objects. A plain
  object is the association list of its own properties. Numbers are the finite ones
  (JSON has no NaN or infinity); a string is the list of its code units.
\<close>

datatype jsval =
    JUndefined
  | JNull
  | JBool bool
  | JNum rat
  | JStr string
  | JArr "jsval list"
  | JObj "(string \<times> jsval) list"

text \<open>The only exception the card's code can raise on such values.\<close>

datatype error = TypeError

text \<open>
  Three operations belong to the JavaScript engine and not to the repository: the string
  form of a number, \<^verbatim>\<open>Date.parse\<close> (\<open>None\<close> is the time value NaN), and
  \<^verbatim>\<open>toLocaleString('de-DE', {day, month, year, hour, minute})\<close> of a valid time
  value. The model takes them as parameters.
\<close>

record host =
  numberToString :: "rat \<Rightarrow> string"
  dateParse :: "string \<Rightarrow> int option"
  toLocaleStringDE :: "int \<Rightarrow> string"

definition bindE :: "error + 'a \<Rightarrow> ('a \<Rightarrow> error + 'b) \<Rightarrow> error + 'b" where
  "bindE m f = (case m of Inl e \<Rightarrow> Inl e | Inr x \<Rightarrow> f x)"

fun mapE :: "('a \<Rightarrow> error + 'b) \<Rightarrow> 'a list \<Rightarrow> error + 'b list" where
  "mapE f [] = Inr []"
| "mapE f (x # xs) = bindE (f x) (\<lambda>y. bindE (mapE f xs) (\<lambda>ys. Inr (y # ys)))"

text \<open>\<^verbatim>\<open>!v\<close> is \<open>\<not> truthy v\<close>.\<close>

fun truthy :: "jsval \<Rightarrow> bool" where
  "truthy JUndefined = False"
| "truthy JNull = False"
| "truthy (JBool b) = b"
| "truthy (JNum r) = (r \<noteq> 0)"
| "truthy (JStr s) = (s \<noteq> [])"
| "truthy (JArr xs) = True"
| "truthy (JObj kvs) = True"

text \<open>\<^verbatim>\<open>a || b\<close> where \<open>b\<close> is a literal.\<close>

definition orElse :: "jsval \<Rightarrow> jsval \<Rightarrow> jsval" where
  "orElse a b = (if truthy a then a else b)"

text \<open>
  String conversion, as a template literal's \<^verbatim>\<open>${...}\<close>, \<^verbatim>\<open>String(v)\<close> and a
  computed property key apply it. An array joins its elements with a comma, \<^verbatim>\<open>null\<close>
  and \<^verbatim>\<open>undefined\<close> elements giving the empty string. A plain object gives
  \<^verbatim>\<open>[object Object]\<close> through the inherited \<^verbatim>\<open>toString\<close>; when it has an own
  property of that name, whose value (parsed JSON) is not callable, the conversion finds
  no method that returns a primitive and raises.
\<close>

fun toString :: "host \<Rightarrow> jsval \<Rightarrow> error + string"
  and join :: "host \<Rightarrow> jsval list \<Rightarrow> error + string" where
  "toString h JUndefined = Inr ''undefined''"
| "toString h JNull = Inr ''null''"
| "toString h (JBool b) = Inr (if b then ''true'' else ''false'')"
| "toString h (JNum r) = Inr (numberToString h r)"
| "toString h (JStr s) = Inr s"
| "toString h (JArr xs) = join h xs"
| "toString h (JObj kvs) =
     (if map_of kvs ''toString'' \<noteq> None then Inl TypeError else Inr ''[object Object]'')"
| "join h [] = Inr []"
| "join h (x # xs) =
     bindE (if x = JUndefined \<or> x = JNull then Inr [] else toString h x) (\<lambda>s.
       if xs = [] then Inr s else bindE (join h xs) (\<lambda>r. Inr (s @ '','' @ r)))"

text \<open>
  Reading a property by a fixed name: \<^verbatim>\<open>v.k\<close>. The names the card reads
  (\<^verbatim>\<open>attributes\<close>, \<^verbatim>\<open>einsaetze\<close>, \<^verbatim>\<open>length\<close>, \<^verbatim>\<open>type\<close>, \<^verbatim>\<open>keyword\<close>,
  \<^verbatim>\<open>vehicles\<close>, \<^verbatim>\<open>timestamp\<close>, \<^verbatim>\<open>unit\<close>) are own properties or absent: no built-in
  prototype of these values defines them.
\<close>

fun getProp :: "jsval \<Rightarrow> string \<Rightarrow> error + jsval" where
  "getProp JUndefined k = Inl TypeError"
| "getProp JNull k = Inl TypeError"
| "getProp (JObj kvs) k = Inr (case map_of kvs k of Some v \<Rightarrow> v | None \<Rightarrow> JUndefined)"
| "getProp (JArr xs) k = Inr (if k = ''length'' then JNum (of_nat (length xs)) else JUndefined)"
| "getProp (JStr s) k = Inr (if k = ''length'' then JNum (of_nat (length s)) else JUndefined)"
| "getProp (JBool b) k = Inr JUndefined"
| "getProp (JNum r) k = Inr JUndefined"

section \<open>The card\<close>

subsection \<open>\<^verbatim>\<open>_getTypeInfo\<close>\<close>

record theme =
  icon :: string
  color :: string
  bgColor :: string

text \<open>The object literal \<^verbatim>\<open>types\<close>: its own properties.\<close>

definition types :: "(string \<times> theme) list" where
  "types =
    [(''fire'', \<lparr>icon = ''mdi:fire'', color = ''#ef4444'',
        bgColor = ''rgba(239, 68, 68, 0.15)''\<rparr>),
     (''technical'', \<lparr>icon = ''mdi:car-emergency'', color = ''#3b82f6'',
        bgColor = ''rgba(59, 130, 246, 0.15)''\<rparr>),
     (''hazmat'', \<lparr>icon = ''mdi:hazard-lights'', color = ''#f59e0b'',
        bgColor = ''rgba(245, 158, 11, 0.15)''\<rparr>)]"

definition fallbackTheme :: theme where
  "fallbackTheme = \<lparr>icon = ''mdi:alert-circle'', color = ''#6b7280'',
     bgColor = ''rgba(107, 114, 128, 0.15)''\<rparr>"

text \<open>
  \<^verbatim>\<open>types\<close> is an ordinary object, so \<^verbatim>\<open>types[type]\<close> also finds what it
  inherits from \<^verbatim>\<open>Object.prototype\<close>: these names.
\<close>

definition objectPrototypeKeys :: "string list" where
  "objectPrototypeKeys =
    [''constructor'', ''hasOwnProperty'', ''isPrototypeOf'', ''propertyIsEnumerable'',
     ''toLocaleString'', ''toString'', ''valueOf'', ''__proto__'',
     ''__defineGetter__'', ''__defineSetter__'', ''__lookupGetter__'', ''__lookupSetter__'']"

text \<open>
  What \<^verbatim>\<open>_getTypeInfo\<close> returns: an entry of the table or the fallback literal, or
  the inherited member found under the key (a function, or the prototype object itself:
  truthy, so \<^verbatim>\<open>||\<close> keeps it).
\<close>

datatype typeInfo = Theme theme | Inherited string

definition getTypeInfo :: "host \<Rightarrow> jsval \<Rightarrow> error + typeInfo" where
  "getTypeInfo h type =
     bindE (toString h type) (\<lambda>key.
       Inr (case map_of types key of
              Some t \<Rightarrow> Theme t
            | None \<Rightarrow> if key \<in> set objectPrototypeKeys then Inherited key
                      else Theme fallbackTheme))"

text \<open>\<^verbatim>\<open>typeInfo.icon\<close> and its siblings: an inherited member has none of them.\<close>

fun typeInfoProp :: "typeInfo \<Rightarrow> (theme \<Rightarrow> string) \<Rightarrow> jsval" where
  "typeInfoProp (Theme t) sel = JStr (sel t)"
| "typeInfoProp (Inherited k) sel = JUndefined"

subsection \<open>\<^verbatim>\<open>_formatTime\<close>\<close>

text \<open>The time value of \<^verbatim>\<open>new Date(number)\<close>: NaN out of range, else truncated.\<close>

definition timeClip :: "rat \<Rightarrow> int option" where
  "timeClip r =
     (if \<bar>r\<bar> > 8640000000000000 then None
      else Some (if r \<ge> 0 then \<lfloor>r\<rfloor> else \<lceil>r\<rceil>))"

text \<open>
  \<^verbatim>\<open>new Date(v)\<close>: a string is parsed, another primitive is converted to a number,
  an array or object is first converted to a primitive, which is its string form or
  raises as \<open>toString\<close> does. The result is the time value (\<open>None\<close> for NaN).
\<close>

fun newDate :: "host \<Rightarrow> jsval \<Rightarrow> error + int option" where
  "newDate h JUndefined = Inr None"
| "newDate h JNull = Inr (Some 0)"
| "newDate h (JBool b) = Inr (Some (if b then 1 else 0))"
| "newDate h (JNum r) = Inr (timeClip r)"
| "newDate h (JStr s) = Inr (dateParse h s)"
| "newDate h v = bindE (toString h v) (\<lambda>s. Inr (dateParse h s))"

text \<open>\<^verbatim>\<open>date.toLocaleString('de-DE', ...)\<close>: an invalid date has a fixed string form.\<close>

definition toLocaleString :: "host \<Rightarrow> int option \<Rightarrow> string" where
  "toLocaleString h d =
     (case d of None \<Rightarrow> ''Invalid Date'' | Some t \<Rightarrow> toLocaleStringDE h t)"

definition formatTime :: "host \<Rightarrow> jsval \<Rightarrow> error + string" where
  "formatTime h timestamp =
     (if \<not> truthy timestamp then Inr ''''
      else case newDate h timestamp of
             Inr date \<Rightarrow> Inr (toLocaleString h date)
           | Inl e \<Rightarrow> toString h timestamp)"

subsection \<open>\<^verbatim>\<open>_render\<close>\<close>

text \<open>
  The markup assigned to \<^verbatim>\<open>innerHTML\<close> is one of three templates. The model keeps
  which template it is and the strings substituted into its holes.
\<close>

record row =
  rowBgColor :: string
  rowColor :: string
  rowIcon :: string
  rowKeyword :: string
  rowUnit :: "string option"
  rowVehicles :: string
  rowTime :: string

datatype view =
    ErrorView string string
  | EmptyView string
  | ListView string "row list"

text \<open>
  The configuration holds strings where it holds anything. \<^verbatim>\<open>hass.states\<close> is a plain
  object with one own property per entity, the state object of that entity.
\<close>

record config =
  entity :: "string option"
  title :: "string option"

record hass =
  states :: "(string \<times> jsval) list"

text \<open>
  \<^verbatim>\<open>hass.states[entityId]\<close>: the own property of that name, else what the object inherits
  from \<^verbatim>\<open>Object.prototype\<close> under that name, else \<^verbatim>\<open>undefined\<close>. An inherited member
  (a built-in function, or the prototype object itself) is truthy and has no property
  \<^verbatim>\<open>attributes\<close>.
\<close>

datatype stateRef = StateObj jsval | InheritedMember string

definition lookupState :: "hass \<Rightarrow> string \<Rightarrow> stateRef" where
  "lookupState hs entityId =
     (case map_of (states hs) entityId of
        Some v \<Rightarrow> StateObj v
      | None \<Rightarrow> if entityId \<in> set objectPrototypeKeys then InheritedMember entityId
                else StateObj JUndefined)"

fun refTruthy :: "stateRef \<Rightarrow> bool" where
  "refTruthy (StateObj v) = truthy v"
| "refTruthy (InheritedMember m) = True"

fun refGetProp :: "stateRef \<Rightarrow> string \<Rightarrow> error + jsval" where
  "refGetProp (StateObj v) k = getProp v k"
| "refGetProp (InheritedMember m) k = Inr JUndefined"

record card =
  cardConfig :: config
  cardHass :: "hass option"
  innerHTML :: "view option"

definition defaultEntity :: string where
  "defaultEntity = ''sensor.letzte_einsatze''"

definition defaultTitle :: string where
  "defaultTitle = ''Letzte Eins'' @ [CHR 0xE4] @ ''tze''"

text \<open>\<^verbatim>\<open>s || d\<close> on a configuration field.\<close>

definition orDefault :: "string option \<Rightarrow> string \<Rightarrow> string" where
  "orDefault s d = (case s of None \<Rightarrow> d | Some x \<Rightarrow> if x = [] then d else x)"

text \<open>The callback of \<^verbatim>\<open>einsaetze.map\<close>: one incident to one row.\<close>

definition renderRow :: "host \<Rightarrow> jsval \<Rightarrow> error + row" where
  "renderRow h einsatz =
     bindE (getProp einsatz ''type'') (\<lambda>ty.
     bindE (getTypeInfo h ty) (\<lambda>typeInfo.
     bindE (getProp einsatz ''keyword'') (\<lambda>kw.
     bindE (getProp einsatz ''vehicles'') (\<lambda>ve.
     bindE (getProp einsatz ''timestamp'') (\<lambda>ts.
     bindE (formatTime h ts) (\<lambda>timeStr.
     bindE (getProp einsatz ''unit'') (\<lambda>un.
     let keyword = orElse kw (JStr ''Unbekannt'');
         vehicles = orElse ve (JStr ''Keine Fahrzeuge'');
         unit = orElse un (JStr '''')
     in
     bindE (toString h (typeInfoProp typeInfo bgColor)) (\<lambda>bg.
     bindE (toString h (typeInfoProp typeInfo color)) (\<lambda>co.
     bindE (toString h (typeInfoProp typeInfo icon)) (\<lambda>ic.
     bindE (toString h keyword) (\<lambda>k.
     bindE (if truthy unit then bindE (toString h unit) (\<lambda>u. Inr (Some u)) else Inr None) (\<lambda>u.
     bindE (toString h vehicles) (\<lambda>v.
       Inr \<lparr>rowBgColor = bg, rowColor = co, rowIcon = ic, rowKeyword = k,
            rowUnit = u, rowVehicles = v, rowTime = timeStr\<rparr>)))))))))))))"

text \<open>
  \<^verbatim>\<open>einsaetze.map(...)\<close>: only an array has a callable \<^verbatim>\<open>map\<close>; on any other
  value the call raises.
\<close>

fun mapRows :: "host \<Rightarrow> jsval \<Rightarrow> error + row list" where
  "mapRows h (JArr xs) = mapE (renderRow h) xs"
| "mapRows h v = Inl TypeError"

definition render :: "host \<Rightarrow> card \<Rightarrow> error + card" where
  "render h c =
     (case cardHass c of
        None \<Rightarrow> Inr c
      | Some hs \<Rightarrow>
          let entityId = orDefault (entity (cardConfig c)) defaultEntity;
              ttl = orDefault (title (cardConfig c)) defaultTitle;
              stateObj = lookupState hs entityId
          in
          if \<not> refTruthy stateObj then Inr (c\<lparr>innerHTML := Some (ErrorView ttl entityId)\<rparr>)
          else
            bindE (refGetProp stateObj ''attributes'') (\<lambda>attributes.
            bindE (getProp attributes ''einsaetze'') (\<lambda>e.
            let einsaetze = orElse e (JArr []) in
            bindE (getProp einsaetze ''length'') (\<lambda>len.
              if len = JNum 0 then Inr (c\<lparr>innerHTML := Some (EmptyView ttl)\<rparr>)
              else bindE (mapRows h einsaetze) (\<lambda>rows.
                     Inr (c\<lparr>innerHTML := Some (ListView ttl rows)\<rparr>))))))"

text \<open>The setter \<^verbatim>\<open>set hass(hass)\<close>, through which the host drives the card.\<close>

definition setHass :: "host \<Rightarrow> hass \<Rightarrow> card \<Rightarrow> error + card" where
  "setHass h hs c = render h (c\<lparr>cardHass := Some hs\<rparr>)"

section \<open>Well-formed input\<close>

text \<open>The values whose string conversion returns: no object with an own \<^verbatim>\<open>toString\<close>.\<close>

fun stringable :: "jsval \<Rightarrow> bool" where
  "stringable (JArr xs) = list_all stringable xs"
| "stringable (JObj kvs) = (map_of kvs ''toString'' = None)"
| "stringable v = True"

definition incidentFields :: "string list" where
  "incidentFields = [''type'', ''keyword'', ''vehicles'', ''timestamp'', ''unit'']"

text \<open>
  An incident the callback can read: not \<^verbatim>\<open>null\<close> or \<^verbatim>\<open>undefined\<close> (so that its
  properties can be read), each of the five fields absent or a value with a string form.
\<close>

definition wellFormed :: "jsval \<Rightarrow> bool" where
  "wellFormed x =
     list_all (\<lambda>k. case getProp x k of Inl e \<Rightarrow> False | Inr v \<Rightarrow> stringable v) incidentFields"

text \<open>
  An incidents attribute the card can render: falsy, of length 0, or an array of
  well-formed incidents.
\<close>

definition wellFormedIncidents :: "jsval \<Rightarrow> bool" where
  "wellFormedIncidents einsaetze =
     (\<not> truthy einsaetze \<or> getProp einsaetze ''length'' = Inr (JNum 0) \<or>
      (case einsaetze of JArr xs \<Rightarrow> list_all wellFormed xs | _ \<Rightarrow> False))"

text \<open>
  A looked-up state object the card can render: falsy (no entity), or with an
  \<^verbatim>\<open>attributes\<close> value from which \<^verbatim>\<open>einsaetze\<close> can be read and is such an incidents
  attribute.
\<close>

definition wellFormedState :: "stateRef \<Rightarrow> bool" where
  "wellFormedState stateObj =
     (\<not> refTruthy stateObj \<or>
      (case refGetProp stateObj ''attributes'' of
         Inl e \<Rightarrow> False
       | Inr attributes \<Rightarrow>
           (case getProp attributes ''einsaetze'' of
              Inl e \<Rightarrow> False
            | Inr einsaetze \<Rightarrow> wellFormedIncidents einsaetze)))"

text \<open>The two local constants of \<^verbatim>\<open>_render\<close> that come from the configuration.\<close>

definition entityIdOf :: "card \<Rightarrow> string" where
  "entityIdOf c = orDefault (entity (cardConfig c)) defaultEntity"

definition titleOf :: "card \<Rightarrow> string" where
  "titleOf c = orDefault (title (cardConfig c)) defaultTitle"

section \<open>Concrete inputs\<close>

text \<open>
  An engine for the evaluations below. It recognises the epoch in ISO format and no other
  date string, and it is exact at the time value 0 (as a browser in the UTC zone prints
  it) and at the number 0; the evaluations consult it nowhere else.
\<close>

definition sampleHost :: host where
  "sampleHost =
     \<lparr>numberToString = (\<lambda>r. ''0''),
      dateParse = (\<lambda>s. if s = ''1970-01-01T00:00:00.000Z'' then Some 0 else None),
      toLocaleStringDE = (\<lambda>t. ''01.01.1970, 00:00'')\<rparr>"

text \<open>The card as its constructor leaves it.\<close>

definition newCard :: card where
  "newCard = \<lparr>cardConfig = \<lparr>entity = None, title = None\<rparr>, cardHass = None, innerHTML = None\<rparr>"

text \<open>
  A \<^verbatim>\<open>hass\<close> object whose \<^verbatim>\<open>states\<close> has one own property, and a state object whose
  attributes hold the incidents.
\<close>

definition hassWith :: "string \<Rightarrow> jsval \<Rightarrow> hass" where
  "hassWith eid stateObj = \<lparr>states = [(eid, stateObj)]\<rparr>"

definition stateWith :: "jsval \<Rightarrow> jsval" where
  "stateWith einsaetze = JObj [(''state'', JStr ''1''), (''attributes'', JObj [(''einsaetze'', einsaetze)])]"

definition sampleIncident :: jsval where
  "sampleIncident =
     JObj [(''type'', JStr ''fire''), (''keyword'', JStr ''B2''),
           (''vehicles'', JStr ''HLF20, TLF''), (''unit'', JStr ''Wache1''),
           (''timestamp'', JStr ''1970-01-01T00:00:00.000Z'')]"

definition sampleHass :: hass where
  "sampleHass = hassWith defaultEntity (stateWith (JArr [sampleIncident]))"

text \<open>A card whose configuration names an entity and that has received \<^verbatim>\<open>hass\<close>.\<close>

definition configured :: "string \<Rightarrow> hass \<Rightarrow> card" where
  "configured e hs =
     \<lparr>cardConfig = \<lparr>entity = Some e, title = None\<rparr>, cardHass = Some hs, innerHTML = None\<rparr>"

definition sampleRow :: row where
  "sampleRow =
     \<lparr>rowBgColor = ''rgba(239, 68, 68, 0.15)'', rowColor = ''#ef4444'', rowIcon = ''mdi:fire'',
      rowKeyword = ''B2'', rowUnit = Some ''Wache1'', rowVehicles = ''HLF20, TLF'',
      rowTime = ''01.01.1970, 00:00''\<rparr>"

text \<open>An incident without keyword and vehicles, and one whose fields are falsy.\<close>

definition bareIncident :: jsval where
  "bareIncident = JObj [(''type'', JStr ''hazmat''), (''unit'', JStr ''Wache1'')]"

definition bareRow :: row where
  "bareRow =
     \<lparr>rowBgColor = ''rgba(245, 158, 11, 0.15)'', rowColor = ''#f59e0b'',
      rowIcon = ''mdi:hazard-lights'', rowKeyword = ''Unbekannt'', rowUnit = Some ''Wache1'',
      rowVehicles = ''Keine Fahrzeuge'', rowTime = []\<rparr>"

definition falsyIncident :: jsval where
  "falsyIncident =
     JObj [(''keyword'', JStr []), (''vehicles'', JStr []), (''timestamp'', JNum 0)]"

definition falsyRow :: row where
  "falsyRow =
     \<lparr>rowBgColor = ''rgba(107, 114, 128, 0.15)'', rowColor = ''#6b7280'',
      rowIcon = ''mdi:alert-circle'', rowKeyword = ''Unbekannt'', rowUnit = None,
      rowVehicles = ''Keine Fahrzeuge'', rowTime = []\<rparr>"

text \<open>Two more \<^verbatim>\<open>hass\<close> objects, with two incidents and with the falsy one.\<close>

definition twoHass :: hass where
  "twoHass = hassWith defaultEntity (stateWith (JArr [sampleIncident, bareIncident]))"

definition falsyHass :: hass where
  "falsyHass = hassWith defaultEntity (stateWith (JArr [falsyIncident]))"

section \<open>String conversion and the helpers of the render\<close>

lemma bindE_Inr [simp]: "bindE (Inr x) f = f x"
  by (simp add: bindE_def)

lemma bindE_Inl [simp]: "bindE (Inl e) f = Inl e"
  by (simp add: bindE_def)

lemma bindE_eq_Inr: "bindE m f = Inr y \<longleftrightarrow> (\<exists>x. m = Inr x \<and> f x = Inr y)"
  by (cases m) simp_all

lemma toString_join_total:
  "(stringable v \<longrightarrow> (\<exists>s. toString h v = Inr s))"
  "(list_all stringable xs \<longrightarrow> (\<exists>s. join h xs = Inr s))"
proof (induction h v and h xs rule: toString_join.induct)
  case (9 h x xs)
  show ?case
  proof
    assume a: "list_all stringable (x # xs)"
    have "\<exists>r. join h xs = Inr r"
    proof (cases "xs = []")
      case True
      then show ?thesis by simp
    next
      case False
      then show ?thesis using 9 a by auto
    qed
    then obtain r where r: "join h xs = Inr r" by blast
    show "\<exists>s. join h (x # xs) = Inr s"
    proof (cases "x = JUndefined \<or> x = JNull")
      case True
      then show ?thesis using r by auto
    next
      case False
      then obtain s where "toString h x = Inr s" using 9 a by auto
      then show ?thesis using r False by auto
    qed
  qed
qed simp_all

lemma toString_join_raises:
  "(\<not> stringable v \<longrightarrow> toString h v = Inl TypeError)"
  "(\<not> list_all stringable xs \<longrightarrow> join h xs = Inl TypeError)"
proof (induction h v and h xs rule: toString_join.induct)
  case (9 h x xs)
  show ?case
  proof
    assume a: "\<not> list_all stringable (x # xs)"
    show "join h (x # xs) = Inl TypeError"
    proof (cases "stringable x")
      case True
      then have nx: "\<not> list_all stringable xs" "xs \<noteq> []" using a by auto
      then have j: "join h xs = Inl TypeError" using 9 by auto
      obtain s where "toString h x = Inr s" using True toString_join_total(1) by blast
      then show ?thesis using j nx by auto
    next
      case False
      then have "x \<noteq> JUndefined" "x \<noteq> JNull" by auto
      moreover have "toString h x = Inl TypeError" using False 9 calculation by auto
      ultimately show ?thesis by simp
    qed
  qed
qed simp_all

lemma toString_succeeds_iff: "(\<exists>s. toString h v = Inr s) \<longleftrightarrow> stringable v"
  using toString_join_total(1) [of v h] toString_join_raises(1) [of v h] by auto

lemma falsy_stringable: "\<not> truthy v \<Longrightarrow> stringable v"
  by (cases v) simp_all

lemma newDate_total: "stringable v \<Longrightarrow> \<exists>d. newDate h v = Inr d"
  using toString_join_total(1) [of v h] by (cases v) auto

lemma newDate_raises: "newDate h v = Inl e \<Longrightarrow> \<not> stringable v"
  using newDate_total [of v h] by auto

lemma formatTime_total: "stringable v \<Longrightarrow> \<exists>s. formatTime h v = Inr s"
  using newDate_total [of v h] by (auto simp: formatTime_def)

lemma formatTime_raises: "\<not> stringable v \<Longrightarrow> formatTime h v = Inl TypeError"
proof -
  assume a: "\<not> stringable v"
  then have t: "truthy v" using falsy_stringable by blast
  have s: "toString h v = Inl TypeError" using a toString_join_raises(1) by blast
  have "newDate h v = Inl TypeError" using a s by (cases v) auto
  then show ?thesis using t s by (simp add: formatTime_def)
qed

lemma getTypeInfo_total: "stringable v \<Longrightarrow> \<exists>t. getTypeInfo h v = Inr t"
  using toString_join_total(1) [of v h] by (auto simp: getTypeInfo_def)

lemma typeInfoProp_string: "\<exists>s. toString h (typeInfoProp t sel) = Inr s"
  by (cases t) simp_all

lemma orElse_stringable: "stringable v \<Longrightarrow> stringable d \<Longrightarrow> stringable (orElse v d)"
  by (simp add: orElse_def)

lemma wellFormed_props:
  assumes "wellFormed x" and "k \<in> set incidentFields"
  shows "\<exists>v. getProp x k = Inr v \<and> stringable v"
proof -
  from assms have "case getProp x k of Inl e \<Rightarrow> False | Inr v \<Rightarrow> stringable v"
    by (simp add: wellFormed_def list_all_iff)
  then show ?thesis by (cases "getProp x k") simp_all
qed

lemma renderRow_total:
  assumes "wellFormed x"
  shows "\<exists>r. renderRow h x = Inr r"
proof -
  obtain ty where ty: "getProp x ''type'' = Inr ty" "stringable ty"
    using wellFormed_props [OF assms, of "''type''"] by (auto simp: incidentFields_def)
  obtain kw where kw: "getProp x ''keyword'' = Inr kw" "stringable kw"
    using wellFormed_props [OF assms, of "''keyword''"] by (auto simp: incidentFields_def)
  obtain ve where ve: "getProp x ''vehicles'' = Inr ve" "stringable ve"
    using wellFormed_props [OF assms, of "''vehicles''"] by (auto simp: incidentFields_def)
  obtain ts where ts: "getProp x ''timestamp'' = Inr ts" "stringable ts"
    using wellFormed_props [OF assms, of "''timestamp''"] by (auto simp: incidentFields_def)
  obtain un where un: "getProp x ''unit'' = Inr un" "stringable un"
    using wellFormed_props [OF assms, of "''unit''"] by (auto simp: incidentFields_def)
  obtain ti where ti: "getTypeInfo h ty = Inr ti" using getTypeInfo_total ty by blast
  obtain tm where tm: "formatTime h ts = Inr tm" using formatTime_total ts by blast
  obtain bg where bg: "toString h (typeInfoProp ti bgColor) = Inr bg"
    using typeInfoProp_string by blast
  obtain co where co: "toString h (typeInfoProp ti color) = Inr co"
    using typeInfoProp_string by blast
  obtain ic where ic: "toString h (typeInfoProp ti icon) = Inr ic"
    using typeInfoProp_string by blast
  obtain k where k: "toString h (orElse kw (JStr ''Unbekannt'')) = Inr k"
    using toString_join_total(1) orElse_stringable kw by (metis stringable.simps(7))
  obtain v where v: "toString h (orElse ve (JStr ''Keine Fahrzeuge'')) = Inr v"
    using toString_join_total(1) orElse_stringable ve by (metis stringable.simps(7))
  obtain u where u: "toString h (orElse un (JStr '''')) = Inr u"
    using toString_join_total(1) orElse_stringable un by (metis stringable.simps(7))
  show ?thesis
    by (simp add: renderRow_def Let_def ty kw ve ts un ti tm bg co ic k v u)
qed

lemma mapE_total: "list_all (\<lambda>x. \<exists>y. f x = Inr y) xs \<Longrightarrow> \<exists>ys. mapE f xs = Inr ys"
  by (induction xs) auto

lemma mapE_pointwise:
  "mapE f xs = Inr ys \<Longrightarrow> length ys = length xs \<and> (\<forall>i<length xs. f (xs ! i) = Inr (ys ! i))"
proof (induction xs arbitrary: ys)
  case Nil
  then show ?case by simp
next
  case (Cons x xs)
  from Cons.prems obtain y zs where y: "f x = Inr y" and zs: "mapE f xs = Inr zs"
    and ys: "ys = y # zs"
    by (auto simp: bindE_eq_Inr)
  from Cons.IH [OF zs] show ?case using y ys by (auto simp: nth_Cons split: nat.splits)
qed

lemma orDefault_configured: "x \<noteq> [] \<Longrightarrow> orDefault (Some x) d = x"
  by (simp add: orDefault_def)

lemma mapRows_total:
  assumes "list_all wellFormed xs"
  shows "\<exists>rows. mapRows h (JArr xs) = Inr rows"
proof -
  have "list_all (\<lambda>x. \<exists>r. renderRow h x = Inr r) xs"
    using assms renderRow_total by (auto simp: list_all_iff)
  then show ?thesis using mapE_total by fastforce
qed

text \<open>What \<^verbatim>\<open>_render\<close> does once the state object is found, by the incidents attribute.\<close>

lemma render_found:
  assumes "cardHass c = Some hs" and "refTruthy (lookupState hs (entityIdOf c))"
    and "refGetProp (lookupState hs (entityIdOf c)) ''attributes'' = Inr attributes"
    and "getProp attributes ''einsaetze'' = Inr e"
  shows "render h c =
     bindE (getProp (orElse e (JArr [])) ''length'') (\<lambda>len.
       if len = JNum 0 then Inr (c\<lparr>innerHTML := Some (EmptyView (titleOf c))\<rparr>)
       else bindE (mapRows h (orElse e (JArr []))) (\<lambda>rows.
              Inr (c\<lparr>innerHTML := Some (ListView (titleOf c) rows)\<rparr>)))"
  using assms unfolding entityIdOf_def titleOf_def by (simp add: render_def Let_def)

lemma render_not_found:
  assumes "cardHass c = Some hs" and "\<not> refTruthy (lookupState hs (entityIdOf c))"
  shows "render h c = Inr (c\<lparr>innerHTML := Some (ErrorView (titleOf c) (entityIdOf c))\<rparr>)"
  using assms by (simp add: render_def Let_def entityIdOf_def titleOf_def)

lemma render_array:
  assumes "cardHass c = Some hs" and "refTruthy (lookupState hs (entityIdOf c))"
    and "refGetProp (lookupState hs (entityIdOf c)) ''attributes'' = Inr attributes"
    and "getProp attributes ''einsaetze'' = Inr (JArr xs)"
  shows "render h c =
     (if xs = [] then Inr (c\<lparr>innerHTML := Some (EmptyView (titleOf c))\<rparr>)
      else bindE (mapE (renderRow h) xs) (\<lambda>rows.
             Inr (c\<lparr>innerHTML := Some (ListView (titleOf c) rows)\<rparr>)))"
  using render_found [OF assms] by (simp add: orElse_def)

lemma render_falsy_incidents:
  assumes "cardHass c = Some hs" and "refTruthy (lookupState hs (entityIdOf c))"
    and "refGetProp (lookupState hs (entityIdOf c)) ''attributes'' = Inr attributes"
    and "getProp attributes ''einsaetze'' = Inr e" and "\<not> truthy e"
  shows "render h c = Inr (c\<lparr>innerHTML := Some (EmptyView (titleOf c))\<rparr>)"
  using render_found [OF assms(1-4)] assms(5) by (simp add: orElse_def)

lemma render_overwrites:
  "render h c = Inr c' \<Longrightarrow> \<exists>w. c' = c\<lparr>innerHTML := w\<rparr>"
proof (cases "cardHass c")
  case None
  assume "render h c = Inr c'"
  with None have "c' = c\<lparr>innerHTML := innerHTML c\<rparr>" by (simp add: render_def)
  then show ?thesis by blast
next
  case (Some hs)
  assume "render h c = Inr c'"
  with Some show ?thesis
    by (auto simp: render_def Let_def bindE_eq_Inr split: if_splits)
qed

lemma render_ignores_innerHTML:
  "cardHass c \<noteq> None \<Longrightarrow> render h (c\<lparr>innerHTML := w\<rparr>) = render h c"
  by (auto simp: render_def Let_def cong: if_cong)

lemma renderRow_parts:
  assumes "renderRow h x = Inr r"
  obtains ty ti kw ve ts un where
    "getProp x ''type'' = Inr ty" and "getTypeInfo h ty = Inr ti"
    and "getProp x ''keyword'' = Inr kw" and "getProp x ''vehicles'' = Inr ve"
    and "getProp x ''timestamp'' = Inr ts" and "formatTime h ts = Inr (rowTime r)"
    and "getProp x ''unit'' = Inr un"
    and "toString h (typeInfoProp ti bgColor) = Inr (rowBgColor r)"
    and "toString h (typeInfoProp ti color) = Inr (rowColor r)"
    and "toString h (typeInfoProp ti icon) = Inr (rowIcon r)"
    and "toString h (orElse kw (JStr ''Unbekannt'')) = Inr (rowKeyword r)"
    and "(if truthy (orElse un (JStr []))
          then bindE (toString h (orElse un (JStr []))) (\<lambda>u. Inr (Some u))
          else Inr None) = Inr (rowUnit r)"
    and "toString h (orElse ve (JStr ''Keine Fahrzeuge'')) = Inr (rowVehicles r)"
  using assms unfolding renderRow_def Let_def bindE_eq_Inr by auto

lemma toString_orElse_stringable:
  assumes "toString h (orElse v d) = Inr s"
  shows "stringable v"
proof (cases "truthy v")
  case True
  with assms have "toString h v = Inr s" by (simp add: orElse_def)
  then show ?thesis using toString_succeeds_iff by blast
next
  case False
  then show ?thesis by (rule falsy_stringable)
qed

text \<open>The callback returns a row exactly for the well-formed incidents.\<close>

lemma renderRow_succeeds_iff: "(\<exists>r. renderRow h x = Inr r) \<longleftrightarrow> wellFormed x"
proof
  assume "\<exists>r. renderRow h x = Inr r"
  then obtain r where r: "renderRow h x = Inr r" by blast
  from r obtain ty ti kw ve ts un where p:
    "getProp x ''type'' = Inr ty" "getTypeInfo h ty = Inr ti"
    "getProp x ''keyword'' = Inr kw" "getProp x ''vehicles'' = Inr ve"
    "getProp x ''timestamp'' = Inr ts" "formatTime h ts = Inr (rowTime r)"
    "getProp x ''unit'' = Inr un"
    "toString h (typeInfoProp ti bgColor) = Inr (rowBgColor r)"
    "toString h (typeInfoProp ti color) = Inr (rowColor r)"
    "toString h (typeInfoProp ti icon) = Inr (rowIcon r)"
    "toString h (orElse kw (JStr ''Unbekannt'')) = Inr (rowKeyword r)"
    "(if truthy (orElse un (JStr []))
      then bindE (toString h (orElse un (JStr []))) (\<lambda>u. Inr (Some u))
      else Inr None) = Inr (rowUnit r)"
    "toString h (orElse ve (JStr ''Keine Fahrzeuge'')) = Inr (rowVehicles r)"
    by (rule renderRow_parts)
  have 1: "stringable ty"
  proof (rule ccontr)
    assume "\<not> stringable ty"
    then have "toString h ty = Inl TypeError" using toString_join_raises(1) by blast
    with p(2) show False by (simp add: getTypeInfo_def)
  qed
  have 2: "stringable kw" using p(11) by (rule toString_orElse_stringable)
  have 3: "stringable ve" using p(13) by (rule toString_orElse_stringable)
  have 4: "stringable ts" using p(6) formatTime_raises [of ts h] by auto
  have 5: "stringable un"
  proof (cases "truthy un")
    case True
    with p(12) obtain u where "toString h un = Inr u"
      by (auto simp: orElse_def bindE_eq_Inr)
    then show ?thesis using toString_succeeds_iff by blast
  next
    case False
    then show ?thesis by (rule falsy_stringable)
  qed
  from p(1,3,4,5,7) 1 2 3 4 5 show "wellFormed x"
    by (simp add: wellFormed_def incidentFields_def)
next
  assume "wellFormed x"
  then show "\<exists>r. renderRow h x = Inr r" by (rule renderRow_total)
qed

section \<open>The type table\<close>

lemma getTypeInfo_absent: "getTypeInfo h JUndefined = Inr (Theme fallbackTheme)"
  by (simp add: getTypeInfo_def types_def objectPrototypeKeys_def)

lemma getTypeInfo_unknown:
  "map_of types s = None \<Longrightarrow> s \<notin> set objectPrototypeKeys \<Longrightarrow>
   getTypeInfo h (JStr s) = Inr (Theme fallbackTheme)"
  by (simp add: getTypeInfo_def)

text \<open>
  C3. \<^verbatim>\<open>_getTypeInfo\<close> is meant to give every unrecognised type tag the fallback
  theme. For the tag \<^verbatim>\<open>constructor\<close>, which is not in the table, it returns what the
  table object inherits under that name instead, and the icon and colours read from that
  value are \<^verbatim>\<open>undefined\<close>.
\<close>

theorem getTypeInfo_constructor:
  "getTypeInfo h (JStr ''constructor'') = Inr (Inherited ''constructor'')
   \<and> map_of types ''constructor'' = None
   \<and> toString h (typeInfoProp (Inherited ''constructor'') color) = Inr ''undefined''"
  by (simp add: getTypeInfo_def types_def objectPrototypeKeys_def)

text \<open>
  C8. Every type tag of the table resolves to its own entry, and the colour and the
  background of that entry differ from those of the fallback theme.
\<close>

theorem recognized_types_differ_from_fallback:
  "\<forall>(k, t) \<in> set types.
     getTypeInfo h (JStr k) = Inr (Theme t)
     \<and> color t \<noteq> color fallbackTheme \<and> bgColor t \<noteq> bgColor fallbackTheme"
  by (simp add: getTypeInfo_def types_def fallbackTheme_def)

theorem recognized_types_differ_from_fallback_witness:
  "(''fire'', \<lparr>icon = ''mdi:fire'', color = ''#ef4444'', bgColor = ''rgba(239, 68, 68, 0.15)''\<rparr>)
     \<in> set types
   \<and> getTypeInfo sampleHost (JStr ''fire'')
       = Inr (Theme \<lparr>icon = ''mdi:fire'', color = ''#ef4444'',
                      bgColor = ''rgba(239, 68, 68, 0.15)''\<rparr>)
   \<and> ''#ef4444'' \<noteq> color fallbackTheme
   \<and> ''rgba(239, 68, 68, 0.15)'' \<noteq> bgColor fallbackTheme"
proof -
  have m: "(''fire'', \<lparr>icon = ''mdi:fire'', color = ''#ef4444'',
              bgColor = ''rgba(239, 68, 68, 0.15)''\<rparr>) \<in> set types"
    by (simp add: types_def)
  from recognized_types_differ_from_fallback [where h = sampleHost] m
  show ?thesis by fastforce
qed

section \<open>The time formatter\<close>

lemma formatTime_absent: "formatTime h JUndefined = Inr []"
  by (simp add: formatTime_def)

lemma formatTime_valid:
  "s \<noteq> [] \<Longrightarrow> dateParse h s = Some t \<Longrightarrow> formatTime h (JStr s) = Inr (toLocaleStringDE h t)"
  by (simp add: formatTime_def toLocaleString_def)

text \<open>
  C2. \<^verbatim>\<open>_formatTime\<close> is meant to return an unparseable timestamp as it is. For a
  non-empty string that the engine does not recognise as a date, \<^verbatim>\<open>new Date\<close> does not
  raise, so the \<^verbatim>\<open>catch\<close> branch is not taken and the result is the string form of an
  invalid date.
\<close>

theorem formatTime_unparseable:
  "s \<noteq> [] \<Longrightarrow> dateParse h s = None \<Longrightarrow> formatTime h (JStr s) = Inr ''Invalid Date''"
  by (simp add: formatTime_def toLocaleString_def)

theorem formatTime_unparseable_witness:
  "''not-a-date'' \<noteq> [] \<and> dateParse sampleHost ''not-a-date'' = None
   \<and> formatTime sampleHost (JStr ''not-a-date'') = Inr ''Invalid Date''"
proof -
  have a: "''not-a-date'' \<noteq> []" by simp
  have b: "dateParse sampleHost ''not-a-date'' = None" by (simp add: sampleHost_def)
  from formatTime_unparseable [OF a b] a b show ?thesis by blast
qed

section \<open>The render\<close>

lemma entityIdOf_hass [simp]: "entityIdOf (c\<lparr>cardHass := x\<rparr>) = entityIdOf c"
  by (simp add: entityIdOf_def)

lemma titleOf_hass [simp]: "titleOf (c\<lparr>cardHass := x\<rparr>) = titleOf c"
  by (simp add: titleOf_def)

lemma configured_simps [simp]:
  "cardHass (configured e hs) = Some hs"
  "e \<noteq> [] \<Longrightarrow> entityIdOf (configured e hs) = e"
  "titleOf (configured e hs) = defaultTitle"
  by (simp_all add: configured_def entityIdOf_def titleOf_def orDefault_def)

lemma newCard_simps [simp]:
  "entityIdOf newCard = defaultEntity"
  "titleOf newCard = defaultTitle"
  by (simp_all add: newCard_def entityIdOf_def titleOf_def orDefault_def)

lemma defaultEntity_nonempty [simp]: "defaultEntity \<noteq> []"
  by (simp add: defaultEntity_def)

lemma defaultEntity_own [simp]: "defaultEntity \<notin> set objectPrototypeKeys"
  by (simp add: defaultEntity_def objectPrototypeKeys_def)

lemma lookupState_hassWith:
  "lookupState (hassWith e s) k =
     (if k = e then StateObj s
      else if k \<in> set objectPrototypeKeys then InheritedMember k else StateObj JUndefined)"
  by (simp add: lookupState_def hassWith_def)

lemma lookupState_default [simp]: "lookupState (hassWith defaultEntity s) defaultEntity = StateObj s"
  by (simp add: lookupState_hassWith)

text \<open>An entity that \<^verbatim>\<open>hass.states\<close> neither has nor inherits gives the error view.\<close>

lemma render_absent_entity:
  assumes "cardHass c = Some hs" and "map_of (states hs) (entityIdOf c) = None"
    and "entityIdOf c \<notin> set objectPrototypeKeys"
  shows "render h c = Inr (c\<lparr>innerHTML := Some (ErrorView (titleOf c) (entityIdOf c))\<rparr>)"
proof -
  have "\<not> refTruthy (lookupState hs (entityIdOf c))"
    using assms(2,3) by (simp add: lookupState_def)
  with assms(1) show ?thesis by (rule render_not_found)
qed

lemma render_empty:
  assumes "cardHass c = Some hs" and "refTruthy (lookupState hs (entityIdOf c))"
    and "refGetProp (lookupState hs (entityIdOf c)) ''attributes'' = Inr attributes"
    and "getProp attributes ''einsaetze'' = Inr e"
    and "\<not> truthy e \<or> getProp e ''length'' = Inr (JNum 0)"
  shows "render h c = Inr (c\<lparr>innerHTML := Some (EmptyView (titleOf c))\<rparr>)"
proof (cases "truthy e")
  case False
  from render_falsy_incidents [OF assms(1-4) False] show ?thesis .
next
  case True
  with assms(5) have "getProp (orElse e (JArr [])) ''length'' = Inr (JNum 0)"
    by (simp add: orElse_def)
  with render_found [OF assms(1-4), of h] show ?thesis by simp
qed

lemma renderRow_fallbacks:
  assumes "renderRow h x = Inr r"
  shows "(\<forall>v. getProp x ''keyword'' = Inr v \<and> \<not> truthy v \<longrightarrow> rowKeyword r = ''Unbekannt'')
       \<and> (\<forall>v. getProp x ''vehicles'' = Inr v \<and> \<not> truthy v \<longrightarrow>
             rowVehicles r = ''Keine Fahrzeuge'')
       \<and> (\<forall>v. getProp x ''timestamp'' = Inr v \<and> \<not> truthy v \<longrightarrow> rowTime r = [])
       \<and> (\<forall>v. getProp x ''unit'' = Inr v \<and> \<not> truthy v \<longrightarrow> rowUnit r = None)
       \<and> (getProp x ''type'' = Inr JUndefined \<longrightarrow>
             rowBgColor r = bgColor fallbackTheme \<and> rowColor r = color fallbackTheme
             \<and> rowIcon r = icon fallbackTheme)"
proof -
  from assms obtain ty ti kw ve ts un where p:
    "getProp x ''type'' = Inr ty" "getTypeInfo h ty = Inr ti"
    "getProp x ''keyword'' = Inr kw" "getProp x ''vehicles'' = Inr ve"
    "getProp x ''timestamp'' = Inr ts" "formatTime h ts = Inr (rowTime r)"
    "getProp x ''unit'' = Inr un"
    "toString h (typeInfoProp ti bgColor) = Inr (rowBgColor r)"
    "toString h (typeInfoProp ti color) = Inr (rowColor r)"
    "toString h (typeInfoProp ti icon) = Inr (rowIcon r)"
    "toString h (orElse kw (JStr ''Unbekannt'')) = Inr (rowKeyword r)"
    "(if truthy (orElse un (JStr []))
      then bindE (toString h (orElse un (JStr []))) (\<lambda>u. Inr (Some u))
      else Inr None) = Inr (rowUnit r)"
    "toString h (orElse ve (JStr ''Keine Fahrzeuge'')) = Inr (rowVehicles r)"
    by (rule renderRow_parts)
  have k: "\<forall>v. getProp x ''keyword'' = Inr v \<and> \<not> truthy v \<longrightarrow> rowKeyword r = ''Unbekannt''"
  proof (intro allI impI)
    fix v assume "getProp x ''keyword'' = Inr v \<and> \<not> truthy v"
    with p(3) have "\<not> truthy kw" by simp
    with p(11) show "rowKeyword r = ''Unbekannt''" by (simp add: orElse_def)
  qed
  have v: "\<forall>v. getProp x ''vehicles'' = Inr v \<and> \<not> truthy v \<longrightarrow>
             rowVehicles r = ''Keine Fahrzeuge''"
  proof (intro allI impI)
    fix v assume "getProp x ''vehicles'' = Inr v \<and> \<not> truthy v"
    with p(4) have "\<not> truthy ve" by simp
    with p(13) show "rowVehicles r = ''Keine Fahrzeuge''" by (simp add: orElse_def)
  qed
  have t: "\<forall>v. getProp x ''timestamp'' = Inr v \<and> \<not> truthy v \<longrightarrow> rowTime r = []"
  proof (intro allI impI)
    fix v assume "getProp x ''timestamp'' = Inr v \<and> \<not> truthy v"
    with p(5) have "\<not> truthy ts" by simp
    with p(6) show "rowTime r = []" by (simp add: formatTime_def)
  qed
  have u: "\<forall>v. getProp x ''unit'' = Inr v \<and> \<not> truthy v \<longrightarrow> rowUnit r = None"
  proof (intro allI impI)
    fix v assume "getProp x ''unit'' = Inr v \<and> \<not> truthy v"
    with p(7) have "\<not> truthy un" by simp
    with p(12) show "rowUnit r = None" by (simp add: orElse_def)
  qed
  have y: "getProp x ''type'' = Inr JUndefined \<longrightarrow>
             rowBgColor r = bgColor fallbackTheme \<and> rowColor r = color fallbackTheme
             \<and> rowIcon r = icon fallbackTheme"
  proof
    assume "getProp x ''type'' = Inr JUndefined"
    with p(1) have "ty = JUndefined" by simp
    with p(2) have "ti = Theme fallbackTheme" by (simp add: getTypeInfo_absent)
    with p(8,9,10) show "rowBgColor r = bgColor fallbackTheme
        \<and> rowColor r = color fallbackTheme \<and> rowIcon r = icon fallbackTheme"
      by simp
  qed
  from k v t u y show ?thesis
    by (intro conjI)
qed

text \<open>The two views of a found state object with a well-formed incidents attribute.\<close>

lemma render_wellFormed:
  assumes "cardHass c = Some hs" and "refTruthy (lookupState hs (entityIdOf c))"
    and "refGetProp (lookupState hs (entityIdOf c)) ''attributes'' = Inr attributes"
    and "getProp attributes ''einsaetze'' = Inr e"
    and "wellFormedIncidents e"
    and "\<not> (\<not> truthy e \<or> getProp e ''length'' = Inr (JNum 0))"
  shows "\<exists>xs rows. e = JArr xs \<and> xs \<noteq> []
           \<and> render h c = Inr (c\<lparr>innerHTML := Some (ListView (titleOf c) rows)\<rparr>)
           \<and> length rows = length xs
           \<and> (\<forall>i<length xs. renderRow h (xs ! i) = Inr (rows ! i))"
proof -
  from assms(5,6) obtain xs where xs: "e = JArr xs" "list_all wellFormed xs"
    by (cases e) (simp_all add: wellFormedIncidents_def)
  from assms(6) xs(1) have ne: "xs \<noteq> []" by auto
  obtain rows where r: "mapE (renderRow h) xs = Inr rows"
    using mapRows_total [OF xs(2), of h] by auto
  from render_array [OF assms(1-3) assms(4) [unfolded xs(1)], of h] r ne
  have "render h c = Inr (c\<lparr>innerHTML := Some (ListView (titleOf c) rows)\<rparr>)"
    by simp
  with mapE_pointwise [OF r] xs(1) ne show ?thesis by blast
qed

lemma sampleIncident_row: "renderRow sampleHost sampleIncident = Inr sampleRow"
  by (simp add: renderRow_def sampleIncident_def sampleRow_def getTypeInfo_def types_def
      formatTime_def toLocaleString_def sampleHost_def orElse_def)

lemma bareIncident_row: "renderRow sampleHost bareIncident = Inr bareRow"
  by (simp add: renderRow_def bareIncident_def bareRow_def getTypeInfo_def types_def
      formatTime_def orElse_def)

lemma falsyIncident_row: "renderRow sampleHost falsyIncident = Inr falsyRow"
  by (simp add: renderRow_def falsyIncident_def falsyRow_def getTypeInfo_def types_def
      objectPrototypeKeys_def fallbackTheme_def formatTime_def orElse_def)

lemma sampleIncident_wellFormed: "wellFormed sampleIncident"
  by (simp add: wellFormed_def incidentFields_def sampleIncident_def)

lemma bareIncident_wellFormed: "wellFormed bareIncident"
  by (simp add: wellFormed_def incidentFields_def bareIncident_def)

lemma falsyIncident_wellFormed: "wellFormed falsyIncident"
  by (simp add: wellFormed_def incidentFields_def falsyIncident_def)

lemma sample_lookups [simp]:
  "lookupState sampleHass defaultEntity = StateObj (stateWith (JArr [sampleIncident]))"
  "lookupState twoHass defaultEntity = StateObj (stateWith (JArr [sampleIncident, bareIncident]))"
  "lookupState falsyHass defaultEntity = StateObj (stateWith (JArr [falsyIncident]))"
  by (simp_all add: sampleHass_def twoHass_def falsyHass_def)

lemma stateWith_props [simp]:
  "truthy (stateWith e)"
  "getProp (stateWith e) ''attributes'' = Inr (JObj [(''einsaetze'', e)])"
  by (simp_all add: stateWith_def)

text \<open>The render of a found state object returns only for a well-formed one.\<close>

lemma mapE_Inr_all: "mapE f xs = Inr ys \<Longrightarrow> list_all (\<lambda>x. \<exists>y. f x = Inr y) xs"
  by (induction xs arbitrary: ys) (auto simp: bindE_eq_Inr)

lemma mapRows_Inr_array:
  assumes "mapRows h e = Inr rows"
  shows "\<exists>xs. e = JArr xs \<and> list_all wellFormed xs"
proof (cases e)
  case (JArr xs)
  with assms have "mapE (renderRow h) xs = Inr rows" by simp
  then have "list_all (\<lambda>x. \<exists>r. renderRow h x = Inr r) xs" by (rule mapE_Inr_all)
  then have "list_all wellFormed xs" by (simp add: renderRow_succeeds_iff)
  with JArr show ?thesis by simp
qed (use assms in simp_all)

lemma render_returns_wellFormed:
  assumes "cardHass c = Some hs" and "render h c = Inr c'"
  shows "wellFormedState (lookupState hs (entityIdOf c))"
proof (cases "refTruthy (lookupState hs (entityIdOf c))")
  case False
  then show ?thesis by (simp add: wellFormedState_def)
next
  case True
  let ?s = "lookupState hs (entityIdOf c)"
  have r: "bindE (refGetProp ?s ''attributes'') (\<lambda>attributes.
            bindE (getProp attributes ''einsaetze'') (\<lambda>e.
            bindE (getProp (orElse e (JArr [])) ''length'') (\<lambda>len.
              if len = JNum 0 then Inr (c\<lparr>innerHTML := Some (EmptyView (titleOf c))\<rparr>)
              else bindE (mapRows h (orElse e (JArr []))) (\<lambda>rows.
                     Inr (c\<lparr>innerHTML := Some (ListView (titleOf c) rows)\<rparr>))))) = Inr c'"
    using assms True unfolding entityIdOf_def titleOf_def by (simp add: render_def Let_def)
  then obtain a where a: "refGetProp ?s ''attributes'' = Inr a"
    and r1: "bindE (getProp a ''einsaetze'') (\<lambda>e.
            bindE (getProp (orElse e (JArr [])) ''length'') (\<lambda>len.
              if len = JNum 0 then Inr (c\<lparr>innerHTML := Some (EmptyView (titleOf c))\<rparr>)
              else bindE (mapRows h (orElse e (JArr []))) (\<lambda>rows.
                     Inr (c\<lparr>innerHTML := Some (ListView (titleOf c) rows)\<rparr>)))) = Inr c'"
    unfolding bindE_eq_Inr [of "refGetProp ?s ''attributes''"] by blast
  from r1 obtain e where e: "getProp a ''einsaetze'' = Inr e"
    and r2: "bindE (getProp (orElse e (JArr [])) ''length'') (\<lambda>len.
              if len = JNum 0 then Inr (c\<lparr>innerHTML := Some (EmptyView (titleOf c))\<rparr>)
              else bindE (mapRows h (orElse e (JArr []))) (\<lambda>rows.
                     Inr (c\<lparr>innerHTML := Some (ListView (titleOf c) rows)\<rparr>))) = Inr c'"
    unfolding bindE_eq_Inr [of "getProp a ''einsaetze''"] by blast
  have "wellFormedIncidents e"
  proof (cases "truthy e")
    case False
    then show ?thesis by (simp add: wellFormedIncidents_def)
  next
    case t: True
    then have o: "orElse e (JArr []) = e" by (simp add: orElse_def)
    from r2 obtain len where len: "getProp e ''length'' = Inr len"
      and r3: "(if len = JNum 0 then Inr (c\<lparr>innerHTML := Some (EmptyView (titleOf c))\<rparr>)
              else bindE (mapRows h e) (\<lambda>rows.
                     Inr (c\<lparr>innerHTML := Some (ListView (titleOf c) rows)\<rparr>))) = Inr c'"
      unfolding o bindE_eq_Inr [of "getProp e ''length''"] by blast
    show ?thesis
    proof (cases "len = JNum 0")
      case True
      with len show ?thesis by (simp add: wellFormedIncidents_def)
    next
      case False
      with r3 obtain rows where "mapRows h e = Inr rows"
        by (auto simp: bindE_eq_Inr)
      from mapRows_Inr_array [OF this] show ?thesis
        by (auto simp: wellFormedIncidents_def)
    qed
  qed
  with True a e show ?thesis by (simp add: wellFormedState_def)
qed

text \<open>
  The setter returns exactly on the well-formed state objects: the condition of the
  theorem below leaves out no snapshot that the card renders.
\<close>

lemma setHass_returns_iff:
  "(\<exists>c'. setHass h hs c = Inr c') \<longleftrightarrow> wellFormedState (lookupState hs (entityIdOf c))"
proof
  assume "\<exists>c'. setHass h hs c = Inr c'"
  then obtain c' where "render h (c\<lparr>cardHass := Some hs\<rparr>) = Inr c'"
    by (auto simp: setHass_def)
  from render_returns_wellFormed [OF _ this, of hs] show
    "wellFormedState (lookupState hs (entityIdOf c))" by simp
next
  let ?c = "c\<lparr>cardHass := Some hs\<rparr>"
  let ?s = "lookupState hs (entityIdOf ?c)"
  assume w: "wellFormedState (lookupState hs (entityIdOf c))"
  have hs: "cardHass ?c = Some hs" by simp
  have "\<exists>c'. render h ?c = Inr c'"
  proof (cases "refTruthy ?s")
    case False
    from render_not_found [OF hs False, of h] show ?thesis by blast
  next
    case True
    with w obtain a e where a: "refGetProp ?s ''attributes'' = Inr a"
      and e: "getProp a ''einsaetze'' = Inr e" and i: "wellFormedIncidents e"
      by (auto simp: wellFormedState_def split: sum.splits)
    show ?thesis
    proof (cases "\<not> truthy e \<or> getProp e ''length'' = Inr (JNum 0)")
      case empty: True
      from render_empty [OF hs True a e empty, of h] show ?thesis by blast
    next
      case False
      from render_wellFormed [OF hs True a e i False, of h] show ?thesis by blast
    qed
  qed
  then show "\<exists>c'. setHass h hs c = Inr c'" by (simp add: setHass_def)
qed

text \<open>
  C1, as amended. The setter \<^verbatim>\<open>hass\<close> is the boundary through which the host drives
  the card. When the looked-up state object is well formed (falsy; or with an attributes
  value whose incidents attribute is falsy, has length 0, or is an array of incidents that
  are not \<^verbatim>\<open>null\<close> or \<^verbatim>\<open>undefined\<close> and whose fields have a string form), the
  setter raises nothing and leaves a view in the card: the error view with title and entity
  identifier when the state object is falsy; the empty view when the incidents attribute
  is falsy or of length 0; and for a non-empty array the list view with one row per
  incident, in order, each row being the one rendered from its incident, in which a falsy
  keyword shows as \<^verbatim>\<open>Unbekannt\<close>, falsy vehicles as \<^verbatim>\<open>Keine Fahrzeuge\<close>, a falsy
  timestamp as the empty string, a falsy unit as no unit line, and an absent type as the
  fallback theme.
\<close>

theorem setHass_renders_a_view:
  assumes "wellFormedState (lookupState hs (entityIdOf c))"
  shows "\<exists>v. setHass h hs c = Inr (c\<lparr>cardHass := Some hs, innerHTML := Some v\<rparr>)
     \<and> (\<not> refTruthy (lookupState hs (entityIdOf c)) \<longrightarrow>
          v = ErrorView (titleOf c) (entityIdOf c))
     \<and> (\<forall>a e. refTruthy (lookupState hs (entityIdOf c))
            \<and> refGetProp (lookupState hs (entityIdOf c)) ''attributes'' = Inr a
            \<and> getProp a ''einsaetze'' = Inr e \<longrightarrow>
          (\<not> truthy e \<or> getProp e ''length'' = Inr (JNum 0) \<longrightarrow> v = EmptyView (titleOf c))
          \<and> (\<forall>xs. e = JArr xs \<and> xs \<noteq> [] \<longrightarrow>
                (\<exists>rows. v = ListView (titleOf c) rows \<and> length rows = length xs
                   \<and> (\<forall>i<length xs.
                        renderRow h (xs ! i) = Inr (rows ! i)
                        \<and> (\<forall>v. getProp (xs ! i) ''keyword'' = Inr v \<and> \<not> truthy v \<longrightarrow>
                              rowKeyword (rows ! i) = ''Unbekannt'')
                        \<and> (\<forall>v. getProp (xs ! i) ''vehicles'' = Inr v \<and> \<not> truthy v \<longrightarrow>
                              rowVehicles (rows ! i) = ''Keine Fahrzeuge'')
                        \<and> (\<forall>v. getProp (xs ! i) ''timestamp'' = Inr v \<and> \<not> truthy v \<longrightarrow>
                              rowTime (rows ! i) = [])
                        \<and> (\<forall>v. getProp (xs ! i) ''unit'' = Inr v \<and> \<not> truthy v \<longrightarrow>
                              rowUnit (rows ! i) = None)
                        \<and> (getProp (xs ! i) ''type'' = Inr JUndefined \<longrightarrow>
                              rowBgColor (rows ! i) = bgColor fallbackTheme
                              \<and> rowColor (rows ! i) = color fallbackTheme
                              \<and> rowIcon (rows ! i) = icon fallbackTheme)))))"
proof -
  let ?c = "c\<lparr>cardHass := Some hs\<rparr>"
  let ?s = "lookupState hs (entityIdOf c)"
  have hs: "cardHass ?c = Some hs" by simp
  have id: "entityIdOf ?c = entityIdOf c" "titleOf ?c = titleOf c" by simp_all
  show ?thesis
  proof (cases "refTruthy ?s")
    case False
    then have "\<not> refTruthy (lookupState hs (entityIdOf ?c))" by simp
    from render_not_found [OF hs this, of h]
    have "setHass h hs c
        = Inr (c\<lparr>cardHass := Some hs, innerHTML := Some (ErrorView (titleOf c) (entityIdOf c))\<rparr>)"
      by (simp add: setHass_def)
    with False show ?thesis by blast
  next
    case True
    with assms obtain a e where
      a: "refGetProp ?s ''attributes'' = Inr a"
      and e: "getProp a ''einsaetze'' = Inr e"
      and w: "wellFormedIncidents e"
      by (auto simp: wellFormedState_def split: sum.splits)
    have t: "refTruthy (lookupState hs (entityIdOf ?c))" using True by simp
    have a': "refGetProp (lookupState hs (entityIdOf ?c)) ''attributes'' = Inr a"
      using a by simp
    show ?thesis
    proof (cases "\<not> truthy e \<or> getProp e ''length'' = Inr (JNum 0)")
      case empty: True
      from render_empty [OF hs t a' e empty, of h]
      have r: "setHass h hs c
          = Inr (c\<lparr>cardHass := Some hs, innerHTML := Some (EmptyView (titleOf c))\<rparr>)"
        by (simp add: setHass_def)
      have n: "\<And>xs. e = JArr xs \<Longrightarrow> xs = []"
        using empty by auto
      show ?thesis
      proof (rule exI [of _ "EmptyView (titleOf c)"], intro conjI allI impI)
        show "setHass h hs c
            = Inr (c\<lparr>cardHass := Some hs, innerHTML := Some (EmptyView (titleOf c))\<rparr>)"
          by (rule r)
      qed (use True a e n in auto)
    next
      case list: False
      from render_wellFormed [OF hs t a' e w list, of h]
      obtain xs rows where x: "e = JArr xs" "xs \<noteq> []"
        and r: "render h ?c = Inr (?c\<lparr>innerHTML := Some (ListView (titleOf c) rows)\<rparr>)"
        and l: "length rows = length xs"
        and p: "\<forall>i<length xs. renderRow h (xs ! i) = Inr (rows ! i)"
        by (auto simp: id)
      have f: "\<forall>i<length xs.
                 renderRow h (xs ! i) = Inr (rows ! i)
                 \<and> (\<forall>v. getProp (xs ! i) ''keyword'' = Inr v \<and> \<not> truthy v \<longrightarrow>
                       rowKeyword (rows ! i) = ''Unbekannt'')
                 \<and> (\<forall>v. getProp (xs ! i) ''vehicles'' = Inr v \<and> \<not> truthy v \<longrightarrow>
                       rowVehicles (rows ! i) = ''Keine Fahrzeuge'')
                 \<and> (\<forall>v. getProp (xs ! i) ''timestamp'' = Inr v \<and> \<not> truthy v \<longrightarrow>
                       rowTime (rows ! i) = [])
                 \<and> (\<forall>v. getProp (xs ! i) ''unit'' = Inr v \<and> \<not> truthy v \<longrightarrow>
                       rowUnit (rows ! i) = None)
                 \<and> (getProp (xs ! i) ''type'' = Inr JUndefined \<longrightarrow>
                       rowBgColor (rows ! i) = bgColor fallbackTheme
                       \<and> rowColor (rows ! i) = color fallbackTheme
                       \<and> rowIcon (rows ! i) = icon fallbackTheme)"
      proof (intro allI impI)
        fix i assume "i < length xs"
        with p have q: "renderRow h (xs ! i) = Inr (rows ! i)" by simp
        from q renderRow_fallbacks [OF q] show
          "renderRow h (xs ! i) = Inr (rows ! i)
           \<and> (\<forall>v. getProp (xs ! i) ''keyword'' = Inr v \<and> \<not> truthy v \<longrightarrow>
                 rowKeyword (rows ! i) = ''Unbekannt'')
           \<and> (\<forall>v. getProp (xs ! i) ''vehicles'' = Inr v \<and> \<not> truthy v \<longrightarrow>
                 rowVehicles (rows ! i) = ''Keine Fahrzeuge'')
           \<and> (\<forall>v. getProp (xs ! i) ''timestamp'' = Inr v \<and> \<not> truthy v \<longrightarrow>
                 rowTime (rows ! i) = [])
           \<and> (\<forall>v. getProp (xs ! i) ''unit'' = Inr v \<and> \<not> truthy v \<longrightarrow>
                 rowUnit (rows ! i) = None)
           \<and> (getProp (xs ! i) ''type'' = Inr JUndefined \<longrightarrow>
                 rowBgColor (rows ! i) = bgColor fallbackTheme
                 \<and> rowColor (rows ! i) = color fallbackTheme
                 \<and> rowIcon (rows ! i) = icon fallbackTheme)"
          by (rule conjI)
      qed
      have s: "setHass h hs c
          = Inr (c\<lparr>cardHass := Some hs, innerHTML := Some (ListView (titleOf c) rows)\<rparr>)"
        using r by (simp add: setHass_def)
      show ?thesis
      proof (rule exI [of _ "ListView (titleOf c) rows"], intro conjI allI impI)
        show "setHass h hs c
            = Inr (c\<lparr>cardHass := Some hs, innerHTML := Some (ListView (titleOf c) rows)\<rparr>)"
          by (rule s)
      next
        assume "\<not> refTruthy ?s"
        with True show "ListView (titleOf c) rows = ErrorView (titleOf c) (entityIdOf c)"
          by simp
      next
        fix a' e'
        assume h1: "refTruthy ?s \<and> refGetProp ?s ''attributes'' = Inr a'
            \<and> getProp a' ''einsaetze'' = Inr e'"
          and h2: "\<not> truthy e' \<or> getProp e' ''length'' = Inr (JNum 0)"
        from h1 a e have "e' = e" by simp
        with h2 list show "ListView (titleOf c) rows = EmptyView (titleOf c)"
          by simp
      next
        fix a' e' xs'
        assume h1: "refTruthy ?s \<and> refGetProp ?s ''attributes'' = Inr a'
            \<and> getProp a' ''einsaetze'' = Inr e'"
          and h2: "e' = JArr xs' \<and> xs' \<noteq> []"
        from h1 a e have "e' = e" by simp
        with h2 x have xs': "xs' = xs" by simp
        from l f show "\<exists>rows'. ListView (titleOf c) rows = ListView (titleOf c) rows'
            \<and> length rows' = length xs'
            \<and> (\<forall>i<length xs'.
                 renderRow h (xs' ! i) = Inr (rows' ! i)
                 \<and> (\<forall>v. getProp (xs' ! i) ''keyword'' = Inr v \<and> \<not> truthy v \<longrightarrow>
                       rowKeyword (rows' ! i) = ''Unbekannt'')
                 \<and> (\<forall>v. getProp (xs' ! i) ''vehicles'' = Inr v \<and> \<not> truthy v \<longrightarrow>
                       rowVehicles (rows' ! i) = ''Keine Fahrzeuge'')
                 \<and> (\<forall>v. getProp (xs' ! i) ''timestamp'' = Inr v \<and> \<not> truthy v \<longrightarrow>
                       rowTime (rows' ! i) = [])
                 \<and> (\<forall>v. getProp (xs' ! i) ''unit'' = Inr v \<and> \<not> truthy v \<longrightarrow>
                       rowUnit (rows' ! i) = None)
                 \<and> (getProp (xs' ! i) ''type'' = Inr JUndefined \<longrightarrow>
                       rowBgColor (rows' ! i) = bgColor fallbackTheme
                       \<and> rowColor (rows' ! i) = color fallbackTheme
                       \<and> rowIcon (rows' ! i) = icon fallbackTheme))"
          unfolding xs' by (intro exI [of _ rows] conjI refl)
      qed
    qed
  qed
qed

theorem setHass_renders_a_view_witness:
  "wellFormedState (lookupState falsyHass (entityIdOf newCard))
   \<and> (\<exists>v. setHass sampleHost falsyHass newCard = Inr (newCard\<lparr>cardHass := Some falsyHass, innerHTML := Some v\<rparr>)
     \<and> (\<not> refTruthy (lookupState falsyHass (entityIdOf newCard)) \<longrightarrow>
          v = ErrorView (titleOf newCard) (entityIdOf newCard))
     \<and> (\<forall>a e. refTruthy (lookupState falsyHass (entityIdOf newCard))
            \<and> refGetProp (lookupState falsyHass (entityIdOf newCard)) ''attributes'' = Inr a
            \<and> getProp a ''einsaetze'' = Inr e \<longrightarrow>
          (\<not> truthy e \<or> getProp e ''length'' = Inr (JNum 0) \<longrightarrow> v = EmptyView (titleOf newCard))
          \<and> (\<forall>xs. e = JArr xs \<and> xs \<noteq> [] \<longrightarrow>
                (\<exists>rows. v = ListView (titleOf newCard) rows \<and> length rows = length xs
                   \<and> (\<forall>i<length xs.
                        renderRow sampleHost (xs ! i) = Inr (rows ! i)
                        \<and> (\<forall>v. getProp (xs ! i) ''keyword'' = Inr v \<and> \<not> truthy v \<longrightarrow>
                              rowKeyword (rows ! i) = ''Unbekannt'')
                        \<and> (\<forall>v. getProp (xs ! i) ''vehicles'' = Inr v \<and> \<not> truthy v \<longrightarrow>
                              rowVehicles (rows ! i) = ''Keine Fahrzeuge'')
                        \<and> (\<forall>v. getProp (xs ! i) ''timestamp'' = Inr v \<and> \<not> truthy v \<longrightarrow>
                              rowTime (rows ! i) = [])
                        \<and> (\<forall>v. getProp (xs ! i) ''unit'' = Inr v \<and> \<not> truthy v \<longrightarrow>
                              rowUnit (rows ! i) = None)
                        \<and> (getProp (xs ! i) ''type'' = Inr JUndefined \<longrightarrow>
                              rowBgColor (rows ! i) = bgColor fallbackTheme
                              \<and> rowColor (rows ! i) = color fallbackTheme
                              \<and> rowIcon (rows ! i) = icon fallbackTheme))))))
   \<and> setHass sampleHost falsyHass newCard
       = Inr (newCard\<lparr>cardHass := Some falsyHass,
                innerHTML := Some (ListView defaultTitle [falsyRow])\<rparr>)
   \<and> rowKeyword falsyRow = ''Unbekannt'' \<and> rowVehicles falsyRow = ''Keine Fahrzeuge''
   \<and> rowTime falsyRow = [] \<and> rowUnit falsyRow = None"
proof (intro conjI)
  show w: "wellFormedState (lookupState falsyHass (entityIdOf newCard))"
    by (simp add: wellFormedState_def wellFormedIncidents_def falsyIncident_wellFormed)
  show "\<exists>v. setHass sampleHost falsyHass newCard = Inr (newCard\<lparr>cardHass := Some falsyHass, innerHTML := Some v\<rparr>)
     \<and> (\<not> refTruthy (lookupState falsyHass (entityIdOf newCard)) \<longrightarrow>
          v = ErrorView (titleOf newCard) (entityIdOf newCard))
     \<and> (\<forall>a e. refTruthy (lookupState falsyHass (entityIdOf newCard))
            \<and> refGetProp (lookupState falsyHass (entityIdOf newCard)) ''attributes'' = Inr a
            \<and> getProp a ''einsaetze'' = Inr e \<longrightarrow>
          (\<not> truthy e \<or> getProp e ''length'' = Inr (JNum 0) \<longrightarrow> v = EmptyView (titleOf newCard))
          \<and> (\<forall>xs. e = JArr xs \<and> xs \<noteq> [] \<longrightarrow>
                (\<exists>rows. v = ListView (titleOf newCard) rows \<and> length rows = length xs
                   \<and> (\<forall>i<length xs.
                        renderRow sampleHost (xs ! i) = Inr (rows ! i)
                        \<and> (\<forall>v. getProp (xs ! i) ''keyword'' = Inr v \<and> \<not> truthy v \<longrightarrow>
                              rowKeyword (rows ! i) = ''Unbekannt'')
                        \<and> (\<forall>v. getProp (xs ! i) ''vehicles'' = Inr v \<and> \<not> truthy v \<longrightarrow>
                              rowVehicles (rows ! i) = ''Keine Fahrzeuge'')
                        \<and> (\<forall>v. getProp (xs ! i) ''timestamp'' = Inr v \<and> \<not> truthy v \<longrightarrow>
                              rowTime (rows ! i) = [])
                        \<and> (\<forall>v. getProp (xs ! i) ''unit'' = Inr v \<and> \<not> truthy v \<longrightarrow>
                              rowUnit (rows ! i) = None)
                        \<and> (getProp (xs ! i) ''type'' = Inr JUndefined \<longrightarrow>
                              rowBgColor (rows ! i) = bgColor fallbackTheme
                              \<and> rowColor (rows ! i) = color fallbackTheme
                              \<and> rowIcon (rows ! i) = icon fallbackTheme)))))"
    by (rule setHass_renders_a_view [OF w])
  have hs: "cardHass (newCard\<lparr>cardHass := Some falsyHass\<rparr>) = Some falsyHass"
    by simp
  from render_array [OF hs, of "JObj [(''einsaetze'', JArr [falsyIncident])]"
      "[falsyIncident]" sampleHost]
  show "setHass sampleHost falsyHass newCard
       = Inr (newCard\<lparr>cardHass := Some falsyHass,
                innerHTML := Some (ListView defaultTitle [falsyRow])\<rparr>)"
    by (simp add: setHass_def falsyIncident_row)
qed (simp_all add: falsyRow_def)

text \<open>
  C1, as stated, fails: an incidents attribute that is a non-empty string has a length
  other than 0 and no \<^verbatim>\<open>map\<close>, so the call raises and the exception leaves the setter.
\<close>

theorem setHass_string_incidents_raises:
  "setHass sampleHost (hassWith defaultEntity (stateWith (JStr ''x''))) newCard = Inl TypeError"
  by (simp add: setHass_def render_def newCard_def orDefault_def orElse_def
      lookupState_hassWith [unfolded defaultEntity_def] defaultEntity_def)

text \<open>
  C4. The render is meant to leave the error view whenever the configured entity is not
  found. For the configured entity \<^verbatim>\<open>constructor\<close>, which \<^verbatim>\<open>hass.states\<close> does not
  hold, the lookup finds the member inherited under that name; it is truthy, so the guard
  is passed, its \<^verbatim>\<open>attributes\<close> are \<^verbatim>\<open>undefined\<close>, and reading \<^verbatim>\<open>einsaetze\<close> from
  them raises.
\<close>

theorem render_inherited_entity_raises:
  "map_of (states sampleHass) ''constructor'' = None
   \<and> render h (configured ''constructor'' sampleHass) = Inl TypeError"
  by (simp add: render_def configured_def orDefault_def sampleHass_def hassWith_def
      lookupState_def objectPrototypeKeys_def defaultEntity_def)

text \<open>
  C5. When the state object is found and its incidents attribute is an array of
  well-formed incidents, the render leaves the empty view for the empty array and
  otherwise a list view with one row per incident, in the order of the array: the row at
  each position is the one rendered from the incident at that position.
\<close>

theorem render_rows_follow_incidents:
  assumes "cardHass c = Some hs" and "refTruthy (lookupState hs (entityIdOf c))"
    and "refGetProp (lookupState hs (entityIdOf c)) ''attributes'' = Inr attributes"
    and "getProp attributes ''einsaetze'' = Inr (JArr xs)"
    and "list_all wellFormed xs"
  shows "(xs = [] \<longrightarrow> render h c = Inr (c\<lparr>innerHTML := Some (EmptyView (titleOf c))\<rparr>))
       \<and> (xs \<noteq> [] \<longrightarrow>
            (\<exists>rows. render h c = Inr (c\<lparr>innerHTML := Some (ListView (titleOf c) rows)\<rparr>)
               \<and> length rows = length xs
               \<and> (\<forall>i<length xs. renderRow h (xs ! i) = Inr (rows ! i))))"
proof -
  obtain rows where r: "mapE (renderRow h) xs = Inr rows"
    using mapRows_total [OF assms(5), of h] by auto
  from mapE_pointwise [OF r] render_array [OF assms(1-4), of h] r show ?thesis
    by auto
qed

theorem render_rows_follow_incidents_witness:
  "cardHass (configured defaultEntity twoHass) = Some twoHass
   \<and> refTruthy (lookupState twoHass (entityIdOf (configured defaultEntity twoHass)))
   \<and> refGetProp (lookupState twoHass (entityIdOf (configured defaultEntity twoHass)))
        ''attributes''
       = Inr (JObj [(''einsaetze'', JArr [sampleIncident, bareIncident])])
   \<and> getProp (JObj [(''einsaetze'', JArr [sampleIncident, bareIncident])]) ''einsaetze''
       = Inr (JArr [sampleIncident, bareIncident])
   \<and> list_all wellFormed [sampleIncident, bareIncident]
   \<and> (\<exists>rows. render sampleHost (configured defaultEntity twoHass)
          = Inr ((configured defaultEntity twoHass)
                  \<lparr>innerHTML := Some (ListView defaultTitle rows)\<rparr>)
        \<and> length rows = 2 \<and> rows ! 0 = sampleRow \<and> rows ! 1 = bareRow)"
proof -
  let ?xs = "[sampleIncident, bareIncident]"
  have a: "cardHass (configured defaultEntity twoHass) = Some twoHass"
    by simp
  have b: "refTruthy (lookupState twoHass (entityIdOf (configured defaultEntity twoHass)))"
    by simp
  have c: "refGetProp (lookupState twoHass (entityIdOf (configured defaultEntity twoHass)))
       ''attributes'' = Inr (JObj [(''einsaetze'', JArr ?xs)])"
    by simp
  have d: "getProp (JObj [(''einsaetze'', JArr ?xs)]) ''einsaetze'' = Inr (JArr ?xs)"
    by simp
  have e: "list_all wellFormed ?xs"
    by (simp add: sampleIncident_wellFormed bareIncident_wellFormed)
  from render_rows_follow_incidents [OF a b c d e, of sampleHost]
  obtain rows where r: "render sampleHost (configured defaultEntity twoHass)
          = Inr ((configured defaultEntity twoHass)
                  \<lparr>innerHTML := Some (ListView defaultTitle rows)\<rparr>)"
    and l: "length rows = length ?xs"
    and p: "\<forall>i<length ?xs. renderRow sampleHost (?xs ! i) = Inr (rows ! i)"
    by auto
  from p [rule_format, of 0] have r0: "rows ! 0 = sampleRow"
    by (simp add: sampleIncident_row)
  from p [rule_format, of 1] have r1: "rows ! 1 = bareRow"
    by (simp add: bareIncident_row)
  from l have l2: "length rows = 2"
    by simp
  from r l2 r0 r1 have "\<exists>rows. render sampleHost (configured defaultEntity twoHass)
          = Inr ((configured defaultEntity twoHass)
                  \<lparr>innerHTML := Some (ListView defaultTitle rows)\<rparr>)
        \<and> length rows = 2 \<and> rows ! 0 = sampleRow \<and> rows ! 1 = bareRow"
    by (intro exI [of _ rows] conjI)
  with a b c d e show ?thesis
    by (intro conjI)
qed

text \<open>
  C10. When the state object is found and its incidents attribute is absent or falsy,
  the render takes the empty array in its place and leaves the empty view.
\<close>

theorem render_missing_incidents_is_empty:
  assumes "cardHass c = Some hs" and "refTruthy (lookupState hs (entityIdOf c))"
    and "refGetProp (lookupState hs (entityIdOf c)) ''attributes'' = Inr attributes"
    and "getProp attributes ''einsaetze'' = Inr e" and "\<not> truthy e"
  shows "render h c = Inr (c\<lparr>innerHTML := Some (EmptyView (titleOf c))\<rparr>)"
  using render_falsy_incidents [OF assms] .

theorem render_missing_incidents_is_empty_witness:
  "cardHass (configured defaultEntity (hassWith defaultEntity (JObj [(''attributes'', JObj [])])))
     = Some (hassWith defaultEntity (JObj [(''attributes'', JObj [])]))
   \<and> refTruthy (lookupState (hassWith defaultEntity (JObj [(''attributes'', JObj [])]))
        (entityIdOf (configured defaultEntity
           (hassWith defaultEntity (JObj [(''attributes'', JObj [])])))))
   \<and> refGetProp (lookupState (hassWith defaultEntity (JObj [(''attributes'', JObj [])]))
        (entityIdOf (configured defaultEntity
           (hassWith defaultEntity (JObj [(''attributes'', JObj [])]))))) ''attributes''
       = Inr (JObj [])
   \<and> getProp (JObj []) ''einsaetze'' = Inr JUndefined
   \<and> \<not> truthy JUndefined
   \<and> render sampleHost
        (configured defaultEntity (hassWith defaultEntity (JObj [(''attributes'', JObj [])])))
       = Inr ((configured defaultEntity (hassWith defaultEntity (JObj [(''attributes'', JObj [])])))
               \<lparr>innerHTML := Some (EmptyView defaultTitle)\<rparr>)"
proof -
  let ?hs = "hassWith defaultEntity (JObj [(''attributes'', JObj [])])"
  let ?c = "configured defaultEntity ?hs"
  have a: "cardHass ?c = Some ?hs"
    by simp
  have b: "refTruthy (lookupState ?hs (entityIdOf ?c))"
    by simp
  have c: "refGetProp (lookupState ?hs (entityIdOf ?c)) ''attributes'' = Inr (JObj [])"
    by simp
  have d: "getProp (JObj []) ''einsaetze'' = Inr JUndefined"
    by simp
  have e: "\<not> truthy JUndefined"
    by simp
  from render_missing_incidents_is_empty [OF a b c d e, of sampleHost] a b c d e
  show ?thesis by simp
qed

text \<open>
  C7. A render reads the configuration and \<^verbatim>\<open>hass\<close> and writes the rendered markup
  only. Rendering twice is the same as rendering once, be it a view or an exception, and
  what a render leaves does not depend on the markup that was there before.
\<close>

theorem render_idempotent:
  "bindE (render h c) (render h) = render h c
   \<and> (\<forall>w. cardHass c \<noteq> None \<longrightarrow> render h (c\<lparr>innerHTML := w\<rparr>) = render h c)"
proof
  show "bindE (render h c) (render h) = render h c"
  proof (cases "render h c")
    case (Inl e)
    then show ?thesis by simp
  next
    case (Inr c')
    from render_overwrites [OF Inr] obtain w where w: "c' = c\<lparr>innerHTML := w\<rparr>" by blast
    show ?thesis
    proof (cases "cardHass c")
      case None
      then have "render h c = Inr c" by (simp add: render_def)
      with Inr show ?thesis by simp
    next
      case (Some hs)
      then have "render h c' = render h c"
        using render_ignores_innerHTML [of c h w] w by simp
      with Inr show ?thesis by simp
    qed
  qed
  show "\<forall>w. cardHass c \<noteq> None \<longrightarrow> render h (c\<lparr>innerHTML := w\<rparr>) = render h c"
    using render_ignores_innerHTML by blast
qed

theorem render_idempotent_witness:
  "cardHass (configured defaultEntity sampleHass) \<noteq> None
   \<and> render sampleHost (configured defaultEntity sampleHass)
     = Inr ((configured defaultEntity sampleHass)
             \<lparr>innerHTML := Some (ListView defaultTitle [sampleRow])\<rparr>)
   \<and> render sampleHost ((configured defaultEntity sampleHass)
             \<lparr>innerHTML := Some (ListView defaultTitle [sampleRow])\<rparr>)
     = Inr ((configured defaultEntity sampleHass)
             \<lparr>innerHTML := Some (ListView defaultTitle [sampleRow])\<rparr>)
   \<and> render sampleHost ((configured defaultEntity sampleHass)
             \<lparr>innerHTML := Some (EmptyView ''other'')\<rparr>)
     = Inr ((configured defaultEntity sampleHass)
             \<lparr>innerHTML := Some (ListView defaultTitle [sampleRow])\<rparr>)"
proof -
  let ?c = "configured defaultEntity sampleHass"
  have a: "cardHass ?c = Some sampleHass"
    by simp
  have n: "cardHass ?c \<noteq> None"
    by simp
  have r: "render sampleHost ?c
     = Inr (?c\<lparr>innerHTML := Some (ListView defaultTitle [sampleRow])\<rparr>)"
    using render_array [OF a, of "JObj [(''einsaetze'', JArr [sampleIncident])]"
        "[sampleIncident]" sampleHost]
    by (simp add: sampleIncident_row)
  have i: "bindE (render sampleHost ?c) (render sampleHost) = render sampleHost ?c"
    and j: "render sampleHost (?c\<lparr>innerHTML := Some (EmptyView ''other'')\<rparr>)
           = render sampleHost ?c"
    using render_idempotent [of sampleHost ?c] n by blast+
  from i j r n show ?thesis
    by simp
qed

section \<open>The rows\<close>

text \<open>
  C6. In the row rendered from an incident, an absent keyword shows as \<^verbatim>\<open>Unbekannt\<close>
  and absent vehicles as \<^verbatim>\<open>Keine Fahrzeuge\<close>, a non-empty keyword or vehicles string
  shows as it is, the colours and the icon are those of the value \<^verbatim>\<open>_getTypeInfo\<close>
  returns for the incident's type, the time is what \<^verbatim>\<open>_formatTime\<close> returns for its
  timestamp, and, the unit being absent or a string, the unit line is there exactly when
  the unit is a non-empty string, which it then shows.
\<close>

theorem renderRow_assembly:
  assumes "renderRow h x = Inr r"
    and "getProp x ''type'' = Inr ty" and "getProp x ''keyword'' = Inr kw"
    and "getProp x ''vehicles'' = Inr ve" and "getProp x ''timestamp'' = Inr ts"
    and "getProp x ''unit'' = Inr un"
  shows "(kw = JUndefined \<longrightarrow> rowKeyword r = ''Unbekannt'')
       \<and> (ve = JUndefined \<longrightarrow> rowVehicles r = ''Keine Fahrzeuge'')
       \<and> (\<forall>s. kw = JStr s \<and> s \<noteq> [] \<longrightarrow> rowKeyword r = s)
       \<and> (\<forall>s. ve = JStr s \<and> s \<noteq> [] \<longrightarrow> rowVehicles r = s)
       \<and> (\<exists>ti. getTypeInfo h ty = Inr ti
             \<and> toString h (typeInfoProp ti bgColor) = Inr (rowBgColor r)
             \<and> toString h (typeInfoProp ti color) = Inr (rowColor r)
             \<and> toString h (typeInfoProp ti icon) = Inr (rowIcon r))
       \<and> formatTime h ts = Inr (rowTime r)
       \<and> (un = JUndefined \<or> (\<exists>s. un = JStr s) \<longrightarrow>
            (rowUnit r \<noteq> None) = (\<exists>s. un = JStr s \<and> s \<noteq> []))
       \<and> (\<forall>s. un = JStr s \<and> s \<noteq> [] \<longrightarrow> rowUnit r = Some s)"
proof -
  from assms(1) obtain ty' ti kw' ve' ts' un' where p:
    "getProp x ''type'' = Inr ty'" "getTypeInfo h ty' = Inr ti"
    "getProp x ''keyword'' = Inr kw'" "getProp x ''vehicles'' = Inr ve'"
    "getProp x ''timestamp'' = Inr ts'" "formatTime h ts' = Inr (rowTime r)"
    "getProp x ''unit'' = Inr un'"
    "toString h (typeInfoProp ti bgColor) = Inr (rowBgColor r)"
    "toString h (typeInfoProp ti color) = Inr (rowColor r)"
    "toString h (typeInfoProp ti icon) = Inr (rowIcon r)"
    "toString h (orElse kw' (JStr ''Unbekannt'')) = Inr (rowKeyword r)"
    "(if truthy (orElse un' (JStr []))
      then bindE (toString h (orElse un' (JStr []))) (\<lambda>u. Inr (Some u))
      else Inr None) = Inr (rowUnit r)"
    "toString h (orElse ve' (JStr ''Keine Fahrzeuge'')) = Inr (rowVehicles r)"
    by (rule renderRow_parts)
  have ty: "ty' = ty" using p(1) assms(2) by simp
  have kw: "kw' = kw" using p(3) assms(3) by simp
  have ve: "ve' = ve" using p(4) assms(4) by simp
  have ts: "ts' = ts" using p(5) assms(5) by simp
  have un: "un' = un" using p(7) assms(6) by simp
  have ks: "toString h (orElse kw (JStr ''Unbekannt'')) = Inr (rowKeyword r)"
    using p(11) kw by simp
  have vs: "toString h (orElse ve (JStr ''Keine Fahrzeuge'')) = Inr (rowVehicles r)"
    using p(13) ve by simp
  have us: "(if truthy un then bindE (toString h un) (\<lambda>u. Inr (Some u)) else Inr None)
      = Inr (rowUnit r)"
    using p(12) unfolding un orElse_def by (cases "truthy un") simp_all
  have k1: "kw = JUndefined \<longrightarrow> rowKeyword r = ''Unbekannt''"
  proof
    assume "kw = JUndefined"
    with ks show "rowKeyword r = ''Unbekannt''" by (simp add: orElse_def)
  qed
  have v1: "ve = JUndefined \<longrightarrow> rowVehicles r = ''Keine Fahrzeuge''"
  proof
    assume "ve = JUndefined"
    with vs show "rowVehicles r = ''Keine Fahrzeuge''" by (simp add: orElse_def)
  qed
  have k2: "\<forall>s. kw = JStr s \<and> s \<noteq> [] \<longrightarrow> rowKeyword r = s"
  proof (intro allI impI)
    fix s assume "kw = JStr s \<and> s \<noteq> []"
    with ks show "rowKeyword r = s" by (simp add: orElse_def)
  qed
  have v2: "\<forall>s. ve = JStr s \<and> s \<noteq> [] \<longrightarrow> rowVehicles r = s"
  proof (intro allI impI)
    fix s assume "ve = JStr s \<and> s \<noteq> []"
    with vs show "rowVehicles r = s" by (simp add: orElse_def)
  qed
  have th: "\<exists>ti. getTypeInfo h ty = Inr ti
             \<and> toString h (typeInfoProp ti bgColor) = Inr (rowBgColor r)
             \<and> toString h (typeInfoProp ti color) = Inr (rowColor r)
             \<and> toString h (typeInfoProp ti icon) = Inr (rowIcon r)"
    using p(2,8,9,10) ty by blast
  have tm: "formatTime h ts = Inr (rowTime r)"
    using p(6) ts by simp
  have u2: "\<forall>s. un = JStr s \<and> s \<noteq> [] \<longrightarrow> rowUnit r = Some s"
  proof (intro allI impI)
    fix s assume "un = JStr s \<and> s \<noteq> []"
    with us show "rowUnit r = Some s" by simp
  qed
  have u1: "un = JUndefined \<or> (\<exists>s. un = JStr s) \<longrightarrow>
            (rowUnit r \<noteq> None) = (\<exists>s. un = JStr s \<and> s \<noteq> [])"
  proof
    assume "un = JUndefined \<or> (\<exists>s. un = JStr s)"
    then show "(rowUnit r \<noteq> None) = (\<exists>s. un = JStr s \<and> s \<noteq> [])"
    proof
      assume a: "un = JUndefined"
      with us have "rowUnit r = None" by simp
      with a show ?thesis by simp
    next
      assume "\<exists>s. un = JStr s"
      then obtain s where s: "un = JStr s" by blast
      show ?thesis
      proof (cases "s = []")
        case True
        with us s have "rowUnit r = None" by simp
        with s True show ?thesis by simp
      next
        case False
        with u2 s have "rowUnit r = Some s" by simp
        with s False show ?thesis by simp
      qed
    qed
  qed
  from k1 v1 k2 v2 th tm u1 u2 show ?thesis
    by (intro conjI)
qed

theorem renderRow_assembly_witness:
  "renderRow sampleHost bareIncident = Inr bareRow
   \<and> getProp bareIncident ''type'' = Inr (JStr ''hazmat'')
   \<and> getProp bareIncident ''keyword'' = Inr JUndefined
   \<and> getProp bareIncident ''vehicles'' = Inr JUndefined
   \<and> getProp bareIncident ''timestamp'' = Inr JUndefined
   \<and> getProp bareIncident ''unit'' = Inr (JStr ''Wache1'')
   \<and> rowKeyword bareRow = ''Unbekannt''
   \<and> rowVehicles bareRow = ''Keine Fahrzeuge''
   \<and> formatTime sampleHost JUndefined = Inr (rowTime bareRow)
   \<and> rowUnit bareRow = Some ''Wache1''"
proof -
  have a: "renderRow sampleHost bareIncident = Inr bareRow"
    by (rule bareIncident_row)
  have b: "getProp bareIncident ''type'' = Inr (JStr ''hazmat'')"
    by (simp add: bareIncident_def)
  have c: "getProp bareIncident ''keyword'' = Inr JUndefined"
    by (simp add: bareIncident_def)
  have d: "getProp bareIncident ''vehicles'' = Inr JUndefined"
    by (simp add: bareIncident_def)
  have e: "getProp bareIncident ''timestamp'' = Inr JUndefined"
    by (simp add: bareIncident_def)
  have f: "getProp bareIncident ''unit'' = Inr (JStr ''Wache1'')"
    by (simp add: bareIncident_def)
  from renderRow_assembly [OF a b c d e f] a b c d e f show ?thesis
    by simp
qed

text \<open>
  C9. The fallbacks are taken for every falsy value, not only for an absent one: a
  keyword or vehicles field that is the empty string (or any other falsy value) shows as
  the placeholder, and a falsy timestamp, such as the number 0 or the empty string, is
  formatted as the empty string.
\<close>

theorem falsy_fields_fall_back:
  assumes "renderRow h x = Inr r"
    and "getProp x ''keyword'' = Inr kw" and "getProp x ''vehicles'' = Inr ve"
  shows "(\<not> truthy kw \<longrightarrow> rowKeyword r = ''Unbekannt'')
       \<and> (\<not> truthy ve \<longrightarrow> rowVehicles r = ''Keine Fahrzeuge'')
       \<and> (\<forall>ts. \<not> truthy ts \<longrightarrow> formatTime h ts = Inr [])
       \<and> \<not> truthy (JStr []) \<and> \<not> truthy (JNum 0)
       \<and> formatTime h (JNum 0) = Inr [] \<and> formatTime h (JStr []) = Inr []"
proof -
  from assms(1) obtain kw' ve' where p:
    "getProp x ''keyword'' = Inr kw'" "getProp x ''vehicles'' = Inr ve'"
    "toString h (orElse kw' (JStr ''Unbekannt'')) = Inr (rowKeyword r)"
    "toString h (orElse ve' (JStr ''Keine Fahrzeuge'')) = Inr (rowVehicles r)"
    by (rule renderRow_parts)
  from p assms(2,3) have eq: "kw' = kw" "ve' = ve"
    by simp_all
  have k: "\<not> truthy kw \<longrightarrow> rowKeyword r = ''Unbekannt''"
    using p(3) eq by (auto simp: orElse_def)
  have v: "\<not> truthy ve \<longrightarrow> rowVehicles r = ''Keine Fahrzeuge''"
    using p(4) eq by (auto simp: orElse_def)
  have t: "\<forall>ts. \<not> truthy ts \<longrightarrow> formatTime h ts = Inr []"
    by (simp add: formatTime_def)
  from k v t show ?thesis by simp
qed

theorem falsy_fields_fall_back_witness:
  "renderRow sampleHost falsyIncident = Inr falsyRow
   \<and> getProp falsyIncident ''keyword'' = Inr (JStr [])
   \<and> getProp falsyIncident ''vehicles'' = Inr (JStr [])
   \<and> rowKeyword falsyRow = ''Unbekannt''
   \<and> rowVehicles falsyRow = ''Keine Fahrzeuge''
   \<and> formatTime sampleHost (JNum 0) = Inr []
   \<and> formatTime sampleHost (JStr []) = Inr []"
proof -
  have a: "renderRow sampleHost falsyIncident = Inr falsyRow"
    by (rule falsyIncident_row)
  have b: "getProp falsyIncident ''keyword'' = Inr (JStr [])"
    by (simp add: falsyIncident_def)
  have c: "getProp falsyIncident ''vehicles'' = Inr (JStr [])"
    by (simp add: falsyIncident_def)
  from falsy_fields_fall_back [OF a b c] a b c show ?thesis
    by simp
qed

end
